theory Spec2Isabelle
  imports Main
begin

section \<open>Text and numbers\<close>

text \<open>\<open>Array.prototype.join\<close> on an array of strings.\<close>

fun join :: "string \<Rightarrow> string list \<Rightarrow> string" where
  "join sep [] = []"
| "join sep [x] = x"
| "join sep (x # y # ys) = x @ sep @ join sep (y # ys)"

text \<open>
  A number in a template literal. The counters of a run are natural numbers and the seed
  is an integer; both print in decimal.
\<close>

function showNat :: "nat \<Rightarrow> string" where
  "showNat n =
     (if n < 10 then [''0123456789'' ! n]
      else showNat (n div 10) @ [''0123456789'' ! (n mod 10)])"
  by pat_completeness auto
termination
  by (relation "measure id") auto

declare showNat.simps [simp del]

definition showInt :: "int \<Rightarrow> string" where
  "showInt i = (if i < 0 then ''-'' @ showNat (nat (- i)) else showNat (nat i))"

text \<open>A string or \<open>null\<close> in a template literal.\<close>

definition nullable :: "string option \<Rightarrow> string" where
  "nullable s = (case s of None \<Rightarrow> ''null'' | Some text \<Rightarrow> text)"

section \<open>Values of the JavaScript runtime\<close>

text \<open>
  Text is a \<open>string\<close>; the two characters of the source outside ASCII (the check mark
  U+221A and the multiplication sign U+00D7 of the status icons) are written as their
  UTF-8 bytes. A line break is \<open>\<newline>\<close>.

  A value that is thrown is either an instance of \<open>Error\<close>, given by its string form
  (what a template literal makes of it) and its \<open>stack\<close> property, or any other value,
  given by its string form.
\<close>

datatype thrown =
    ErrorObject string "string option"
  | OtherThrown string

fun toString :: "thrown \<Rightarrow> string" where
  "toString (ErrorObject text st) = text"
| "toString (OtherThrown text) = text"

text \<open>\<open>err instanceof Error && err.stack\<close>: the stack, when the test is truthy (an
  absent or empty stack is falsy).\<close>

fun errorStack :: "thrown \<Rightarrow> string option" where
  "errorStack (ErrorObject text (Some st)) = (if st = [] then None else Some st)"
| "errorStack (ErrorObject text None) = None"
| "errorStack (OtherThrown text) = None"

text \<open>
  What awaiting a predicate gives: the promise resolves to \<open>true\<close>, \<open>false\<close> or
  \<open>undefined\<close> (\<open>None\<close>), or the call throws, or the promise rejects.
\<close>

datatype outcome =
    Resolved "bool option"
  | Rejected thrown

section \<open>AsyncProperty.ts\<close>

text \<open>
  \<open>Arbitrary<T>\<close> is not part of the sources at hand; it is taken by its \<open>generate\<close>
  method, which draws from the mutable random generator \<open>'r\<close> and returns the generated
  value with the generator advanced, or throws. The shrink sequence of the
  \<open>Shrinkable\<close> is not looked at by any function here and is left out.
\<close>

type_synonym ('t, 'r) Arbitrary = "'r \<Rightarrow> thrown + ('t \<times> 'r)"

text \<open>\<open>class AsyncProperty<Ts>\<close>: the two constructor arguments.\<close>

record ('t, 'r) AsyncProperty =
  arb :: "('t, 'r) Arbitrary"
  predicate :: "'t \<Rightarrow> outcome"

definition generate :: "('t, 'r) AsyncProperty \<Rightarrow> 'r \<Rightarrow> thrown + ('t \<times> 'r)" where
  "generate this mrng = arb this mrng"

text \<open>\<open>run\<close> returns \<open>null\<close> (\<open>None\<close>, the property passed) or the description of the
  failure.\<close>

definition run :: "('t, 'r) AsyncProperty \<Rightarrow> 't \<Rightarrow> string option" where
  "run this v =
     (case predicate this v of
        Resolved output \<Rightarrow>
          (if output = None \<or> output = Some True then None
           else Some ''Property failed by returning false'')
      | Rejected err \<Rightarrow>
          (case errorStack err of
             Some st \<Rightarrow> Some (toString err @ ''\<newline>\<newline>Stack trace: '' @ st)
           | None \<Rightarrow> Some (toString err)))"

subsection \<open>The arguments of \<open>asyncProperty\<close>\<close>

text \<open>
  The implementation signature of \<open>asyncProperty\<close> takes ten positional arguments, each
  an arbitrary, a function or (from the third on) nothing. The values generated by the
  arbitraries of one call are taken in one type \<open>'v\<close>; a predicate is called with a list
  of arguments, each a value or \<open>undefined\<close> (\<open>None\<close>).
\<close>

datatype ('v, 'r) Arg =
    Undefined
  | ArbitraryArg "('v, 'r) Arbitrary"
  | FunctionArg "'v option list \<Rightarrow> outcome"

text \<open>\<open>if (x)\<close>: objects and functions are truthy, \<open>undefined\<close> is not.\<close>

fun truthy :: "('v, 'r) Arg \<Rightarrow> bool" where
  "truthy Undefined = False"
| "truthy (ArbitraryArg g) = True"
| "truthy (FunctionArg f) = True"

fun callable :: "('v, 'r) Arg \<Rightarrow> bool" where
  "callable (FunctionArg f) = True"
| "callable Undefined = False"
| "callable (ArbitraryArg g) = False"

text \<open>
  \<open>p(...)\<close> after the cast \<open>as (...) => Promise<boolean|void>\<close>: the cast does nothing
  at run time, and calling what is not a function throws the \<open>TypeError\<close> of the engine,
  \<open>te\<close>, whose text belongs to the engine and is a parameter here.
\<close>

fun call :: "thrown \<Rightarrow> ('v, 'r) Arg \<Rightarrow> 'v option list \<Rightarrow> outcome" where
  "call te (FunctionArg f) args = f args"
| "call te Undefined args = Rejected te"
| "call te (ArbitraryArg g) args = Rejected te"

text \<open>\<open>t[i]\<close>: \<open>undefined\<close> beyond the end of the array.\<close>

definition index :: "'v list \<Rightarrow> nat \<Rightarrow> 'v option" where
  "index t i = (if i < length t then Some (t ! i) else None)"

text \<open>
  Modelled from the spec: \<open>tuple\<close> of \<open>TupleArbitrary\<close>, which is not part of the sources
  at hand. The spec: "build one composite generator by point-wise generating each of the
  n generators and packaging results as an ordered fixed-size sequence". The generators
  draw from the one random generator in the order of the arguments. After the cast
  \<open>as Arbitrary<T>\<close> an argument that is no arbitrary has no \<open>generate\<close> method, and
  generating throws the \<open>TypeError\<close> of the engine.
\<close>

fun tuple :: "thrown \<Rightarrow> ('v, 'r) Arg list \<Rightarrow> ('v list, 'r) Arbitrary" where
  "tuple te [] mrng = Inr ([], mrng)"
| "tuple te (ArbitraryArg g # arbs) mrng =
     (case g mrng of
        Inl err \<Rightarrow> Inl err
      | Inr (v, mrng') \<Rightarrow>
          (case tuple te arbs mrng' of
             Inl err \<Rightarrow> Inl err
           | Inr (vs, mrng'') \<Rightarrow> Inr (v # vs, mrng'')))"
| "tuple te (Undefined # arbs) mrng = Inl te"
| "tuple te (FunctionArg f # arbs) mrng = Inl te"

subsection \<open>\<open>asyncProperty\<close>\<close>

definition asyncProperty ::
  "thrown \<Rightarrow> ('v, 'r) Arg \<Rightarrow> ('v, 'r) Arg \<Rightarrow> ('v, 'r) Arg \<Rightarrow> ('v, 'r) Arg \<Rightarrow> ('v, 'r) Arg \<Rightarrow>
   ('v, 'r) Arg \<Rightarrow> ('v, 'r) Arg \<Rightarrow> ('v, 'r) Arg \<Rightarrow> ('v, 'r) Arg \<Rightarrow> ('v, 'r) Arg \<Rightarrow>
   ('v list, 'r) AsyncProperty" where
  "asyncProperty te arb1 arb2 arb3 arb4 arb5 arb6 arb7 arb8 arb9 predicate' =
     (if truthy predicate' then
        \<lparr>arb = tuple te [arb1, arb2, arb3, arb4, arb5, arb6, arb7, arb8, arb9],
         predicate = (\<lambda>t. call te predicate'
           [index t 0, index t 1, index t 2, index t 3, index t 4, index t 5, index t 6,
            index t 7, index t 8])\<rparr>
      else if truthy arb9 then
        \<lparr>arb = tuple te [arb1, arb2, arb3, arb4, arb5, arb6, arb7, arb8],
         predicate = (\<lambda>t. call te arb9
           [index t 0, index t 1, index t 2, index t 3, index t 4, index t 5, index t 6,
            index t 7])\<rparr>
      else if truthy arb8 then
        \<lparr>arb = tuple te [arb1, arb2, arb3, arb4, arb5, arb6, arb7],
         predicate = (\<lambda>t. call te arb8
           [index t 0, index t 1, index t 2, index t 3, index t 4, index t 5, index t 6])\<rparr>
      else if truthy arb7 then
        \<lparr>arb = tuple te [arb1, arb2, arb3, arb4, arb5, arb6],
         predicate = (\<lambda>t. call te arb7
           [index t 0, index t 1, index t 2, index t 3, index t 4, index t 5])\<rparr>
      else if truthy arb6 then
        \<lparr>arb = tuple te [arb1, arb2, arb3, arb4, arb5],
         predicate = (\<lambda>t. call te arb6
           [index t 0, index t 1, index t 2, index t 3, index t 4])\<rparr>
      else if truthy arb5 then
        \<lparr>arb = tuple te [arb1, arb2, arb3, arb4],
         predicate = (\<lambda>t. call te arb5 [index t 0, index t 1, index t 2, index t 3])\<rparr>
      else if truthy arb4 then
        \<lparr>arb = tuple te [arb1, arb2, arb3],
         predicate = (\<lambda>t. call te arb4 [index t 0, index t 1, index t 2])\<rparr>
      else if truthy arb3 then
        \<lparr>arb = tuple te [arb1, arb2],
         predicate = (\<lambda>t. call te arb3 [index t 0, index t 1])\<rparr>
      else
        \<lparr>arb = tuple te [arb1],
         predicate = (\<lambda>t. call te arb2 [index t 0])\<rparr>)"

text \<open>
  A call with the argument list \<open>args\<close>: a parameter with no argument is \<open>undefined\<close>,
  and arguments after the tenth are not read.
\<close>

definition argument :: "('v, 'r) Arg list \<Rightarrow> nat \<Rightarrow> ('v, 'r) Arg" where
  "argument args i = (if i < length args then args ! i else Undefined)"

definition asyncPropertyCall ::
  "thrown \<Rightarrow> ('v, 'r) Arg list \<Rightarrow> ('v list, 'r) AsyncProperty" where
  "asyncPropertyCall te args =
     asyncProperty te (argument args 0) (argument args 1) (argument args 2)
       (argument args 3) (argument args 4) (argument args 5) (argument args 6)
       (argument args 7) (argument args 8) (argument args 9)"

section \<open>The run details and the execution trees\<close>

text \<open>
  Modelled from the spec: the declarations of \<open>ExecutionStatus\<close>, \<open>ExecutionTree\<close>,
  \<open>VerbosityLevel\<close> and \<open>RunDetails\<close> are imported by the formatter and are not part of
  the sources at hand. The spec gives a node a value, a status among Success, Failure
  and Skipped and an ordered sequence of children, the verbosity three ordered levels,
  and the run details the fields below.

  The formatter reverses arrays in place, so the trees live in a store: a tree is an
  object at an address, and the array of its children holds addresses. Every address
  holds an object (a reference never dangles). An array belongs to one object: two
  nodes do not share the array of their children.
\<close>

datatype ExecutionStatus = Success | Skipped | Failure

type_synonym addr = nat

record 't ExecutionTree =
  status :: ExecutionStatus
  value' :: 't
  children :: "addr list"

type_synonym 't heap = "addr \<Rightarrow> 't ExecutionTree"

datatype VerbosityLevel = None' | Verbose | VeryVerbose

text \<open>The number of a level, for \<open>>=\<close>.\<close>

fun level :: "VerbosityLevel \<Rightarrow> nat" where
  "level None' = 0"
| "level Verbose = 1"
| "level VeryVerbose = 2"

record 't RunDetails =
  failed :: bool
  interrupted :: bool
  numRuns :: nat
  numSkips :: nat
  numShrinks :: nat
  seed :: int
  counterexample :: "'t option"
  counterexamplePath :: "string option"
  error :: "string option"
  failures :: "'t list"
  executionSummary :: "addr list"
  verbose :: VerbosityLevel

section \<open>The formatter of the run details\<close>

text \<open>
  \<open>stringify\<close> of \<open>utils/stringify\<close> is not part of the sources at hand and is a
  parameter of every function that calls it.
\<close>

definition formatHints :: "string list \<Rightarrow> string" where
  "formatHints hints' =
     (if length hints' = 1 then ''Hint: '' @ hints' ! 0
      else join ''\<newline>''
        (map (\<lambda>(h, idx). ''Hint ('' @ showNat (idx + 1) @ ''): '' @ h)
          (zip hints' [0..<length hints'])))"

definition formatFailures :: "('t \<Rightarrow> string) \<Rightarrow> 't list \<Rightarrow> string" where
  "formatFailures stringify failures' =
     ''Encountered failures were:\<newline>- '' @ join ''\<newline>- '' (map stringify failures')"

text \<open>
  The \<open>while\<close> loop of \<open>formatExecutionSummary\<close>. The array \<open>remainingTreesAndDepth\<close> is
  a stack with its top at the end: \<open>pop\<close> takes the last element and \<open>push\<close> appends.
  \<open>currentTree.children.reverse()\<close> reverses the array of the children in place, which
  is the update of the store, and returns that array. \<open>Array(n).join('. ')\<close> joins \<open>n\<close>
  empty slots. The loop runs forever on a store with a cycle: not returning is \<open>None\<close>.
\<close>

partial_function (option) summaryLoop ::
  "('t \<Rightarrow> string) \<Rightarrow> 't heap \<Rightarrow> (nat \<times> addr) list \<Rightarrow> string list \<Rightarrow>
   (string list \<times> 't heap) option" where
  "summaryLoop stringify h remainingTreesAndDepth summaryLines =
     (if remainingTreesAndDepth = [] then Some (summaryLines, h)
      else
        let currentTreeAndDepth = last remainingTreesAndDepth;
            remaining = butlast remainingTreesAndDepth;
            currentTree = h (snd currentTreeAndDepth);
            currentDepth = fst currentTreeAndDepth;
            statusIcon =
              (if status currentTree = Success
               then [CHR 0x1B] @ ''[32m'' @ [CHR 0xE2, CHR 0x88, CHR 0x9A] @ [CHR 0x1B] @ ''[0m''
               else if status currentTree = Failure
               then [CHR 0x1B] @ ''[31m'' @ [CHR 0xC3, CHR 0x97] @ [CHR 0x1B] @ ''[0m''
               else [CHR 0x1B] @ ''[33m!'' @ [CHR 0x1B] @ ''[0m'');
            leftPadding = join ''. '' (replicate currentDepth []);
            line = leftPadding @ statusIcon @ '' '' @ stringify (value' currentTree);
            reversed = rev (children currentTree);
            h' = h(snd currentTreeAndDepth := currentTree\<lparr>children := reversed\<rparr>)
        in summaryLoop stringify h'
             (remaining @ map (\<lambda>tree. (currentDepth + 1, tree)) reversed)
             (summaryLines @ [line]))"

declare summaryLoop.simps [code]

text \<open>
  \<open>formatExecutionSummary\<close> returns the text together with the store and the array
  \<open>executionTrees\<close> as the call leaves them: \<open>executionTrees.reverse()\<close> reverses the
  array of the caller in place.
\<close>

definition formatExecutionSummary ::
  "('t \<Rightarrow> string) \<Rightarrow> 't heap \<Rightarrow> addr list \<Rightarrow> (string \<times> 't heap \<times> addr list) option" where
  "formatExecutionSummary stringify h executionTrees =
     (let reversed = rev executionTrees;
          remainingTreesAndDepth = map (\<lambda>tree. (1, tree)) reversed
      in case summaryLoop stringify h remainingTreesAndDepth [] of
           None \<Rightarrow> None
         | Some (summaryLines, h') \<Rightarrow>
             Some (''Execution summary:\<newline>'' @ join ''\<newline>'' summaryLines, h', reversed))"

record Report =
  message :: string
  details :: "string option"
  hints :: "string list"

text \<open>
  The three builders return the report with the store and the run details as they leave
  them (\<open>out.executionSummary\<close> is the array that \<open>formatExecutionSummary\<close> reverses).
  \<open>stringify(null)\<close> is taken to be the text \<open>null\<close>.
\<close>

definition preFormatTooManySkipped ::
  "('t \<Rightarrow> string) \<Rightarrow> 't heap \<Rightarrow> 't RunDetails \<Rightarrow>
   (Report \<times> 't heap \<times> 't RunDetails) option" where
  "preFormatTooManySkipped stringify h out =
     (let message' =
            ''Failed to run property, too many pre-condition failures encountered\<newline>{ seed: ''
            @ showInt (seed out) @ '' }\<newline>\<newline>Ran '' @ showNat (numRuns out)
            @ '' time(s)\<newline>Skipped '' @ showNat (numSkips out) @ '' time(s)'';
          hints' =
            [''Try to reduce the number of rejected values by combining map, flatMap and built-in arbitraries'',
             ''Increase failure tolerance by setting maxSkipsPerRun to an higher value'']
      in if level (verbose out) \<ge> level VeryVerbose then
           (case formatExecutionSummary stringify h (executionSummary out) of
              None \<Rightarrow> None
            | Some (text, h', trees) \<Rightarrow>
                Some (\<lparr>message = message', details = Some text, hints = hints'\<rparr>,
                      h', out\<lparr>executionSummary := trees\<rparr>))
         else
           Some (\<lparr>message = message', details = None,
                  hints = hints' @
                    [''Enable verbose mode at level VeryVerbose in order to check all generated values and their associated status'']\<rparr>,
                 h, out))"

definition preFormatFailure ::
  "('t \<Rightarrow> string) \<Rightarrow> 't heap \<Rightarrow> 't RunDetails \<Rightarrow>
   (Report \<times> 't heap \<times> 't RunDetails) option" where
  "preFormatFailure stringify h out =
     (let message' =
            ''Property failed after '' @ showNat (numRuns out) @ '' tests\<newline>{ seed: ''
            @ showInt (seed out) @ '', path: \"'' @ nullable (counterexamplePath out)
            @ ''\", endOnFailure: true }\<newline>Counterexample: ''
            @ (case counterexample out of None \<Rightarrow> ''null'' | Some c \<Rightarrow> stringify c)
            @ ''\<newline>Shrunk '' @ showNat (numShrinks out) @ '' time(s)\<newline>Got error: ''
            @ nullable (error out)
      in if level (verbose out) \<ge> level VeryVerbose then
           (case formatExecutionSummary stringify h (executionSummary out) of
              None \<Rightarrow> None
            | Some (text, h', trees) \<Rightarrow>
                Some (\<lparr>message = message', details = Some text, hints = []\<rparr>,
                      h', out\<lparr>executionSummary := trees\<rparr>))
         else if verbose out = Verbose then
           Some (\<lparr>message = message',
                  details = Some (formatFailures stringify (failures out)), hints = []\<rparr>,
                 h, out)
         else
           Some (\<lparr>message = message', details = None,
                  hints =
                    [''Enable verbose mode in order to have the list of all failing values encountered during the run'']\<rparr>,
                 h, out))"

definition preFormatEarlyInterrupted ::
  "('t \<Rightarrow> string) \<Rightarrow> 't heap \<Rightarrow> 't RunDetails \<Rightarrow>
   (Report \<times> 't heap \<times> 't RunDetails) option" where
  "preFormatEarlyInterrupted stringify h out =
     (let message' =
            ''Property interrupted after '' @ showNat (numRuns out) @ '' tests\<newline>{ seed: ''
            @ showInt (seed out) @ '' }''
      in if level (verbose out) \<ge> level VeryVerbose then
           (case formatExecutionSummary stringify h (executionSummary out) of
              None \<Rightarrow> None
            | Some (text, h', trees) \<Rightarrow>
                Some (\<lparr>message = message', details = Some text, hints = []\<rparr>,
                      h', out\<lparr>executionSummary := trees\<rparr>))
         else
           Some (\<lparr>message = message', details = None,
                  hints =
                    [''Enable verbose mode at level VeryVerbose in order to check all generated values and their associated status'']\<rparr>,
                 h, out))"

text \<open>
  \<open>throwIfFailed\<close> returns (\<open>Inr ()\<close>) or throws \<open>new Error(errorMessage)\<close>
  (\<open>Inl errorMessage\<close>); \<open>None\<close> when the rendering of the trees does not return.
\<close>

definition throwIfFailed ::
  "('t \<Rightarrow> string) \<Rightarrow> 't heap \<Rightarrow> 't RunDetails \<Rightarrow>
   ((string + unit) \<times> 't heap \<times> 't RunDetails) option" where
  "throwIfFailed stringify h out =
     (if \<not> failed out then Some (Inr (), h, out)
      else
        (case (if counterexample out = None
               then (if interrupted out
                     then preFormatEarlyInterrupted stringify h out
                     else preFormatTooManySkipped stringify h out)
               else preFormatFailure stringify h out) of
           None \<Rightarrow> None
         | Some (report, h', out') \<Rightarrow>
             (let errorMessage = message report;
                  errorMessage =
                    (case details report of
                       Some d \<Rightarrow> errorMessage @ ''\<newline>\<newline>'' @ d
                     | None \<Rightarrow> errorMessage);
                  errorMessage =
                    (if length (hints report) > 0
                     then errorMessage @ ''\<newline>\<newline>'' @ formatHints (hints report)
                     else errorMessage)
              in Some (Inl errorMessage, h', out'))))"

section \<open>The custom assertions\<close>

text \<open>
  \<open>fc.check\<close> and the declared function \<open>fc_formatRunDetails\<close> (a string or
  \<open>undefined\<close>) have no body in the sources at hand and are parameters. A wrapper
  returns, or throws a new \<open>Error\<close> with a message, or lets what a callback threw pass.
  \<open>new Error(undefined)\<close> has the empty message, and \<open>undefined\<close> in a template literal
  is the text \<open>undefined\<close>.

  A callback of the user takes the values of the counterexample as its arguments and
  resolves to a text or rejects; what else it does is a change of a state \<open>'s\<close> of the
  user, so that a callback that is not called leaves no trace in it.
\<close>

datatype raised = NewError string | Rethrown thrown

definition errorMessageOf :: "string option \<Rightarrow> string" where
  "errorMessageOf m = (case m of None \<Rightarrow> [] | Some text \<Rightarrow> text)"

definition template :: "string option \<Rightarrow> string" where
  "template m = (case m of None \<Rightarrow> ''undefined'' | Some text \<Rightarrow> text)"

type_synonym ('a, 's) callback = "'a list \<Rightarrow> 's \<Rightarrow> (thrown + string) \<times> 's"

definition customAssertA ::
  "('p \<Rightarrow> 'q option \<Rightarrow> 't RunDetails) \<Rightarrow> ('t RunDetails \<Rightarrow> string option) \<Rightarrow>
   'p \<Rightarrow> 'q option \<Rightarrow> raised + unit" where
  "customAssertA fc_check fc_formatRunDetails property params =
     (let out = fc_check property params
      in if \<not> failed out then Inr ()
         else
           let genericErrorMessage = fc_formatRunDetails out
           in if counterexample out = None
              then Inl (NewError (errorMessageOf genericErrorMessage))
              else Inl (NewError (template genericErrorMessage @ ''\<newline>\<newline>''
                          @ ''await callMethod(out.counterexample)'')))"

text \<open>\<open>buildCustomAssertB (...) property params\<close> is the method \<open>run\<close> of the object that
  the source returns; its argument is optional.\<close>

definition buildCustomAssertB ::
  "('p \<Rightarrow> 'q option \<Rightarrow> 'a list RunDetails) \<Rightarrow> ('a list RunDetails \<Rightarrow> string option) \<Rightarrow>
   'p \<Rightarrow> 'q option \<Rightarrow> ('a, 's) callback option \<Rightarrow> 's \<Rightarrow> (raised + unit) \<times> 's" where
  "buildCustomAssertB fc_check fc_formatRunDetails property params callMethod s =
     (let out = fc_check property params
      in if \<not> failed out then (Inr (), s)
         else
           let genericErrorMessage = fc_formatRunDetails out
           in case callMethod of
                None \<Rightarrow> (Inl (NewError (errorMessageOf genericErrorMessage)), s)
              | Some f \<Rightarrow>
                  (case counterexample out of
                     None \<Rightarrow> (Inl (NewError (errorMessageOf genericErrorMessage)), s)
                   | Some c \<Rightarrow>
                       (case f c s of
                          (Inl err, s') \<Rightarrow> (Inl (Rethrown err), s')
                        | (Inr text, s') \<Rightarrow>
                            (Inl (NewError
                                   (template genericErrorMessage @ ''\<newline>\<newline>'' @ text)),
                             s'))))"

text \<open>\<open>out\<close> below is what awaiting the promise \<open>run\<close> gives.\<close>

definition withCustomAssert ::
  "('a list RunDetails \<Rightarrow> string option) \<Rightarrow> 'a list RunDetails \<Rightarrow> ('a, 's) callback \<Rightarrow>
   's \<Rightarrow> (raised + unit) \<times> 's" where
  "withCustomAssert fc_formatRunDetails out callMethod s =
     (if \<not> failed out then (Inr (), s)
      else
        let genericErrorMessage = fc_formatRunDetails out
        in case counterexample out of
             None \<Rightarrow> (Inl (NewError (errorMessageOf genericErrorMessage)), s)
           | Some c \<Rightarrow>
               (case callMethod c s of
                  (Inl err, s') \<Rightarrow> (Inl (Rethrown err), s')
                | (Inr text, s') \<Rightarrow>
                    (Inl (NewError (template genericErrorMessage @ ''\<newline>\<newline>'' @ text)),
                     s')))"

record ('a, 's) config =
  onRunInterrupted :: "('a, 's) callback"
  onRunFailed :: "('a, 's) callback"
  onRunTooManySkip :: "('a, 's) callback"

definition withCustomAssertB ::
  "('a list RunDetails \<Rightarrow> string option) \<Rightarrow> 'a list RunDetails \<Rightarrow> ('a, 's) config \<Rightarrow>
   's \<Rightarrow> (raised + unit) \<times> 's" where
  "withCustomAssertB fc_formatRunDetails out config' s =
     (if \<not> failed out then (Inr (), s)
      else
        let genericErrorMessage = fc_formatRunDetails out
        in case counterexample out of
             None \<Rightarrow> (Inl (NewError (errorMessageOf genericErrorMessage)), s)
           | Some c \<Rightarrow>
               (case onRunInterrupted config' c s of
                  (Inl err, s') \<Rightarrow> (Inl (Rethrown err), s')
                | (Inr text, s') \<Rightarrow>
                    (Inl (NewError (template genericErrorMessage @ ''\<newline>\<newline>'' @ text)),
                     s')))"

section \<open>The words of the spec\<close>

subsection \<open>The resolution of the call shape, in the words of the spec\<close>

text \<open>
  The slots are counted from 0: slot 0 is \<open>arb1\<close>, slot 9 is \<open>predicate\<close>. The spec scans
  the slots from the highest one down to slot 2 (\<open>arb3\<close>) with a test and takes the first
  slot that passes as the one of the predicate, slot 1 (\<open>arb2\<close>) otherwise.
\<close>

definition predicateSlot :: "(('v, 'r) Arg \<Rightarrow> bool) \<Rightarrow> ('v, 'r) Arg list \<Rightarrow> nat" where
  "predicateSlot test args =
     (case filter (\<lambda>i. test (argument args i)) [9, 8, 7, 6, 5, 4, 3, 2] of
        [] \<Rightarrow> 1
      | i # rest \<Rightarrow> i)"

text \<open>The property with the predicate in slot \<open>k\<close> and the arguments to its left bound
  as generators, in their order.\<close>

definition composed :: "thrown \<Rightarrow> ('v, 'r) Arg list \<Rightarrow> nat \<Rightarrow> ('v list, 'r) AsyncProperty" where
  "composed te args k =
     \<lparr>arb = tuple te (map (argument args) [0..<k]),
      predicate = (\<lambda>t. call te (argument args k) (map (index t) [0..<k]))\<rparr>"

subsection \<open>Execution forests, in the words of the spec\<close>

text \<open>
  A forest of execution nodes as the spec has it: a node with its status, its value and
  the ordered sequence of its children; each node also carries the address of the
  object that holds it in the store.
\<close>

datatype 't tree = Node addr ExecutionStatus 't "'t tree list"

fun root :: "'t tree \<Rightarrow> addr" where
  "root (Node a st v ts) = a"

fun addresses :: "'t tree \<Rightarrow> addr list" where
  "addresses (Node a st v ts) = a # concat (map addresses ts)"

fun nodes :: "'t tree \<Rightarrow> nat" where
  "nodes (Node a st v ts) = Suc (sum_list (map nodes ts))"

text \<open>The store holds the tree: each node is the object at its address, and the array
  of its children holds the addresses of the children in their order.\<close>

fun stored :: "'t heap \<Rightarrow> 't tree \<Rightarrow> bool" where
  "stored h (Node a st v ts) =
     (h a = \<lparr>status = st, value' = v, children = map root ts\<rparr> \<and> list_all (stored h) ts)"

text \<open>A forest in the store: no object is a node twice.\<close>

definition forest :: "'t heap \<Rightarrow> 't tree list \<Rightarrow> bool" where
  "forest h ts = (list_all (stored h) ts \<and> distinct (concat (map addresses ts)))"

text \<open>The tree with the children of every node in the opposite order.\<close>

fun mirror :: "'t tree \<Rightarrow> 't tree" where
  "mirror (Node a st v ts) = Node a st v (rev (map mirror ts))"

text \<open>The three status glyphs.\<close>

fun glyph :: "ExecutionStatus \<Rightarrow> string" where
  "glyph Success = [CHR 0x1B] @ ''[32m'' @ [CHR 0xE2, CHR 0x88, CHR 0x9A] @ [CHR 0x1B] @ ''[0m''"
| "glyph Failure = [CHR 0x1B] @ ''[31m'' @ [CHR 0xC3, CHR 0x97] @ [CHR 0x1B] @ ''[0m''"
| "glyph Skipped = [CHR 0x1B] @ ''[33m!'' @ [CHR 0x1B] @ ''[0m''"

text \<open>
  The body lines of a tree at a depth, in pre-order: the line of the node, indented by
  \<open>depth - 1\<close> copies of the marker, then the lines of its children, one level deeper,
  in their order.
\<close>

fun bodyLines :: "('t \<Rightarrow> string) \<Rightarrow> nat \<Rightarrow> 't tree \<Rightarrow> string list" where
  "bodyLines stringify depth (Node a st v ts) =
     (concat (replicate (depth - 1) ''. '') @ glyph st @ '' '' @ stringify v)
     # concat (map (bodyLines stringify (Suc depth)) ts)"

text \<open>The work stack of the loop for a list of trees still to be rendered, the next
  one first; and the store after the arrays of the objects in \<open>A\<close> have been reversed.\<close>

definition stackOf :: "(nat \<times> 't tree) list \<Rightarrow> (nat \<times> addr) list" where
  "stackOf W = rev (map (\<lambda>(d, t). (d, root t)) W)"

definition childrenReversed :: "addr set \<Rightarrow> 't heap \<Rightarrow> 't heap" where
  "childrenReversed A h =
     (\<lambda>a. if a \<in> A then (h a)\<lparr>children := rev (children (h a))\<rparr> else h a)"

subsection \<open>The classification of a failed run, in the words of the spec\<close>

datatype builder = TooManySkips | CounterexampleFound | Interrupted

fun preFormat ::
  "builder \<Rightarrow> ('t \<Rightarrow> string) \<Rightarrow> 't heap \<Rightarrow> 't RunDetails \<Rightarrow>
   (Report \<times> 't heap \<times> 't RunDetails) option" where
  "preFormat TooManySkips = preFormatTooManySkipped"
| "preFormat CounterexampleFound = preFormatFailure"
| "preFormat Interrupted = preFormatEarlyInterrupted"

definition classify :: "'t RunDetails \<Rightarrow> builder" where
  "classify out =
     (if counterexample out \<noteq> None then CounterexampleFound
      else if interrupted out then Interrupted else TooManySkips)"

text \<open>The text of the error: the message, the details after a blank line when there
  are details, the hints after a blank line when there is a hint.\<close>

definition hintsText :: "string list \<Rightarrow> string" where
  "hintsText hs =
     (case hs of
        [] \<Rightarrow> []
      | [h] \<Rightarrow> ''\<newline>\<newline>Hint: '' @ h
      | _ \<Rightarrow> ''\<newline>\<newline>'' @ join ''\<newline>''
          (map (\<lambda>i. ''Hint ('' @ showNat (i + 1) @ ''): '' @ hs ! i) [0..<length hs]))"

definition assembled :: "Report \<Rightarrow> string" where
  "assembled report =
     message report
     @ (case details report of None \<Rightarrow> [] | Some d \<Rightarrow> ''\<newline>\<newline>'' @ d)
     @ hintsText (hints report)"

text \<open>How the message of each builder starts.\<close>

fun builderPrefix :: "builder \<Rightarrow> string" where
  "builderPrefix TooManySkips = ''Failed to run property''"
| "builderPrefix CounterexampleFound = ''Property failed after ''"
| "builderPrefix Interrupted = ''Property interrupted after ''"

subsection \<open>Examples\<close>

text \<open>A forest of two trials: the first failed and was shrunk twice, the second was
  skipped. A failed run over it, and three callbacks that write to a log.\<close>

definition exampleHeap :: "nat heap" where
  "exampleHeap =
     (\<lambda>a. \<lparr>status = Success, value' = a, children = []\<rparr>)
       (0 := \<lparr>status = Failure, value' = 10, children = [2, 3]\<rparr>,
        1 := \<lparr>status = Skipped, value' = 11, children = []\<rparr>)"

definition exampleForest :: "nat tree list" where
  "exampleForest =
     [Node 0 Failure 10 [Node 2 Success 2 [], Node 3 Success 3 []], Node 1 Skipped 11 []]"

definition exampleRun :: "nat RunDetails" where
  "exampleRun =
     \<lparr>failed = True, interrupted = False, numRuns = 12, numSkips = 3, numShrinks = 4,
      seed = - 42, counterexample = Some 10, counterexamplePath = Some ''1:2'',
      error = Some ''Error: boom'', failures = [10, 11], executionSummary = [0, 1],
      verbose = VeryVerbose\<rparr>"

definition exampleTuple :: "nat list RunDetails" where
  "exampleTuple =
     \<lparr>failed = True, interrupted = False, numRuns = 12, numSkips = 3, numShrinks = 4,
      seed = - 42, counterexample = Some [7, 8], counterexamplePath = Some ''1:2'',
      error = Some ''Error: boom'', failures = [], executionSummary = [],
      verbose = None'\<rparr>"

definition logging :: "string \<Rightarrow> (nat, string list) callback" where
  "logging name args log = (Inr (name @ '' saw '' @ concat (map showNat args)), log @ [name])"

definition exampleConfig :: "(nat, string list) config" where
  "exampleConfig =
     \<lparr>onRunInterrupted = logging ''interrupted'', onRunFailed = logging ''failed'',
      onRunTooManySkip = logging ''skipped''\<rparr>"

section \<open>Properties of \<open>AsyncProperty.run\<close>\<close>

text \<open>
  C7. Whatever the input value, \<open>run\<close> fails with exactly the description
  "Property failed by returning false" when the predicate resolves to \<open>false\<close>, and
  passes (returns \<open>null\<close>) when it resolves to \<open>true\<close> or to \<open>undefined\<close>.
\<close>

theorem run_false_true_undefined:
  "(predicate this v = Resolved (Some False) \<longrightarrow>
      run this v = Some ''Property failed by returning false'') \<and>
   (predicate this v = Resolved (Some True) \<longrightarrow> run this v = None) \<and>
   (predicate this v = Resolved None \<longrightarrow> run this v = None)"
  by (simp add: run_def)

theorem run_false_true_undefined_witness:
  "run \<lparr>arb = (\<lambda>m::nat. Inr (m, Suc m)), predicate = (\<lambda>x::nat. Resolved (Some (x < 100)))\<rparr> 100
     = Some ''Property failed by returning false'' \<and>
   run \<lparr>arb = (\<lambda>m::nat. Inr (m, Suc m)), predicate = (\<lambda>x::nat. Resolved (Some (x < 100)))\<rparr> 7
     = None \<and>
   run \<lparr>arb = (\<lambda>m::nat. Inr (m, Suc m)), predicate = (\<lambda>x::nat. Resolved None)\<rparr> 7 = None"
  using run_false_true_undefined
      [of "\<lparr>arb = (\<lambda>m::nat. Inr (m, Suc m)), predicate = (\<lambda>x::nat. Resolved (Some (x < 100)))\<rparr>" 100]
    run_false_true_undefined
      [of "\<lparr>arb = (\<lambda>m::nat. Inr (m, Suc m)), predicate = (\<lambda>x::nat. Resolved (Some (x < 100)))\<rparr>" 7]
    run_false_true_undefined
      [of "\<lparr>arb = (\<lambda>m::nat. Inr (m, Suc m)), predicate = (\<lambda>x::nat. Resolved None)\<rparr>" 7]
  by simp

text \<open>
  C8. Whatever the input value, when the predicate throws an \<open>Error\<close> that carries a
  stack trace, \<open>run\<close> fails with the string form of the error, then a blank line and the
  label "Stack trace: ", then the stack trace.
\<close>

theorem run_error_with_stack:
  assumes "predicate this v = Rejected (ErrorObject text (Some st))" and "st \<noteq> []"
  shows "run this v = Some (text @ ''\<newline>\<newline>Stack trace: '' @ st)"
  using assms by (simp add: run_def)

theorem run_error_with_stack_witness:
  "run \<lparr>arb = (\<lambda>m::nat. Inr (m, Suc m)),
        predicate = (\<lambda>x::nat. Rejected (ErrorObject ''Error: boom'' (Some ''at f (a.js:1:1)'')))\<rparr> 3
     = Some ''Error: boom\<newline>\<newline>Stack trace: at f (a.js:1:1)''"
  using run_error_with_stack
      [of "\<lparr>arb = (\<lambda>m::nat. Inr (m, Suc m)),
           predicate = (\<lambda>x::nat. Rejected (ErrorObject ''Error: boom'' (Some ''at f (a.js:1:1)'')))\<rparr>"
          3 "''Error: boom''" "''at f (a.js:1:1)''"]
  by simp

section \<open>Properties of \<open>asyncProperty\<close>\<close>

lemma predicateSlot_cases:
  "predicateSlot test args =
     (if test (argument args 9) then 9 else if test (argument args 8) then 8
      else if test (argument args 7) then 7 else if test (argument args 6) then 6
      else if test (argument args 5) then 5 else if test (argument args 4) then 4
      else if test (argument args 3) then 3 else if test (argument args 2) then 2 else 1)"
  by (simp add: predicateSlot_def)

lemma upt_numerals:
  "[0..<1] = [0]" "[0..<2] = [0, 1]" "[0..<3] = [0, 1, 2]" "[0..<4] = [0, 1, 2, 3]"
  "[0..<5] = [0, 1, 2, 3, 4]" "[0..<6] = [0, 1, 2, 3, 4, 5]"
  "[0..<7] = [0, 1, 2, 3, 4, 5, 6]" "[0..<8] = [0, 1, 2, 3, 4, 5, 6, 7]"
  "[0..<9] = [0, 1, 2, 3, 4, 5, 6, 7, 8]"
  by (simp_all add: upt_rec)

lemma asyncPropertyCall_composed:
  "asyncPropertyCall te args = composed te args (predicateSlot truthy args)"
  unfolding asyncPropertyCall_def asyncProperty_def predicateSlot_cases composed_def
  by (simp add: upt_numerals)

text \<open>The declared call shape: \<open>n\<close> arbitraries, then the predicate, and nothing more.\<close>

lemma argument_declared:
  "argument (map ArbitraryArg gs @ [FunctionArg p]) i =
     (if i < length gs then ArbitraryArg (gs ! i)
      else if i = length gs then FunctionArg p else Undefined)"
  by (auto simp: argument_def nth_append)

lemma predicateSlot_declared:
  assumes "1 \<le> length gs" and "length gs \<le> 9"
  shows "predicateSlot truthy (map ArbitraryArg gs @ [FunctionArg p]) = length gs"
    and "predicateSlot callable (map ArbitraryArg gs @ [FunctionArg p]) = length gs"
proof -
  from assms have "length gs \<in> {1, 2, 3, 4, 5, 6, 7, 8, 9}" by auto
  then show "predicateSlot truthy (map ArbitraryArg gs @ [FunctionArg p]) = length gs"
    and "predicateSlot callable (map ArbitraryArg gs @ [FunctionArg p]) = length gs"
    by (auto simp: predicateSlot_cases argument_declared)
qed

lemma generators_declared:
  "map (argument (map ArbitraryArg gs @ [FunctionArg p])) [0..<length gs] = map ArbitraryArg gs"
  by (rule nth_equalityI) (simp_all add: argument_declared)

lemma values_declared: "map (index vs) [0..<length vs] = map Some vs"
  by (rule nth_equalityI) (simp_all add: index_def)

lemma tuple_arbitraries:
  "tuple te (map ArbitraryArg gs) mrng = Inr (vs, mrng') \<Longrightarrow>
   length vs = length gs \<and> (\<forall>i<length gs. \<exists>m m'. (gs ! i) m = Inr (vs ! i, m'))"
proof (induction gs arbitrary: mrng vs)
  case Nil
  then show ?case by simp
next
  case (Cons g gs)
  from Cons.prems obtain v m1 ws where g: "g mrng = Inr (v, m1)"
    and rest: "tuple te (map ArbitraryArg gs) m1 = Inr (ws, mrng')" and vs: "vs = v # ws"
    by (auto split: sum.splits prod.splits)
  from Cons.IH [OF rest] have len: "length ws = length gs"
    and each: "\<forall>i<length gs. \<exists>m m'. (gs ! i) m = Inr (ws ! i, m')" by simp_all
  have "\<exists>m m'. ((g # gs) ! i) m = Inr (vs ! i, m')" if "i < length (g # gs)" for i
  proof (cases i)
    case 0
    with g vs show ?thesis by auto
  next
    case (Suc j)
    with that each vs show ?thesis by simp
  qed
  with len vs show ?case by simp
qed

text \<open>
  C6. On every declared call shape (\<open>n\<close> generators, \<open>n\<close> from 1 to 9, then the
  predicate, and nothing after it) \<open>asyncProperty\<close> resolves the shape as the scan from
  the highest position downward for a callable argument does: the slot of the predicate
  is the highest slot that holds a callable argument, the property is the one composed
  with the predicate of that slot, and every argument to its left is bound, in its
  position, as a generator. (The code tests whether the argument of a slot is present;
  on these shapes the highest present argument is the callable one.)
\<close>

theorem asyncProperty_resolution:
  assumes "1 \<le> length gs" and "length gs \<le> 9"
  shows "asyncPropertyCall te (map ArbitraryArg gs @ [FunctionArg p])
           = composed te (map ArbitraryArg gs @ [FunctionArg p])
               (predicateSlot callable (map ArbitraryArg gs @ [FunctionArg p])) \<and>
         predicateSlot callable (map ArbitraryArg gs @ [FunctionArg p]) = length gs \<and>
         argument (map ArbitraryArg gs @ [FunctionArg p]) (length gs) = FunctionArg p \<and>
         (\<forall>i. length gs < i \<longrightarrow>
            \<not> callable (argument (map ArbitraryArg gs @ [FunctionArg p]) i)) \<and>
         map (argument (map ArbitraryArg gs @ [FunctionArg p])) [0..<length gs]
           = map ArbitraryArg gs"
proof (intro conjI allI impI)
  let ?args = "map ArbitraryArg gs @ [FunctionArg p]"
  show slot: "predicateSlot callable ?args = length gs"
    by (rule predicateSlot_declared(2) [OF assms])
  show "asyncPropertyCall te ?args = composed te ?args (predicateSlot callable ?args)"
    using predicateSlot_declared(1) [OF assms, of p] slot
    by (simp add: asyncPropertyCall_composed)
  show "argument ?args (length gs) = FunctionArg p"
    by (simp add: argument_declared)
  show "\<not> callable (argument ?args i)" if "length gs < i" for i
    using that by (simp add: argument_declared)
  show "map (argument ?args) [0..<length gs] = map ArbitraryArg gs"
    by (rule generators_declared)
qed

theorem asyncProperty_resolution_witness:
  "predicateSlot callable
      [ArbitraryArg (\<lambda>m::nat. Inr (m, Suc m)), ArbitraryArg (\<lambda>m. Inr (10 * m, m + 2)),
       FunctionArg (\<lambda>xs::nat option list. Resolved (Some (xs = [Some 5, Some 60])))] = 2 \<and>
   asyncPropertyCall (OtherThrown ''TypeError'')
      [ArbitraryArg (\<lambda>m::nat. Inr (m, Suc m)), ArbitraryArg (\<lambda>m. Inr (10 * m, m + 2)),
       FunctionArg (\<lambda>xs::nat option list. Resolved (Some (xs = [Some 5, Some 60])))]
     = composed (OtherThrown ''TypeError'')
         [ArbitraryArg (\<lambda>m::nat. Inr (m, Suc m)), ArbitraryArg (\<lambda>m. Inr (10 * m, m + 2)),
          FunctionArg (\<lambda>xs::nat option list. Resolved (Some (xs = [Some 5, Some 60])))] 2"
  using asyncProperty_resolution
      [of "[\<lambda>m::nat. Inr (m, Suc m), \<lambda>m. Inr (10 * m, m + 2)]" "OtherThrown ''TypeError''"
          "\<lambda>xs::nat option list. Resolved (Some (xs = [Some 5, Some 60]))"]
  by (simp add: numeral_2_eq_2)

text \<open>
  C2. For every \<open>n\<close> from 1 to 9, \<open>asyncProperty\<close> called with \<open>n\<close> generators and an
  \<open>n\<close>-ary predicate gives a property that generates with exactly the \<open>n\<close> generators in
  the order of the arguments (a generated tuple has \<open>n\<close> components, the \<open>i\<close>-th one
  drawn from the \<open>i\<close>-th generator), and whose run on a tuple \<open>(v1, ..., vn)\<close> is the
  verdict of the predicate applied to \<open>v1, ..., vn\<close> in this order.
\<close>

theorem asyncProperty_declared_shape:
  assumes "1 \<le> length gs" and "length gs \<le> 9"
  shows "generate (asyncPropertyCall te (map ArbitraryArg gs @ [FunctionArg p])) mrng
           = tuple te (map ArbitraryArg gs) mrng \<and>
         (\<forall>vs mrng'.
            generate (asyncPropertyCall te (map ArbitraryArg gs @ [FunctionArg p])) mrng
              = Inr (vs, mrng') \<longrightarrow>
            length vs = length gs \<and> (\<forall>i<length gs. \<exists>m m'. (gs ! i) m = Inr (vs ! i, m'))) \<and>
         (\<forall>vs. length vs = length gs \<longrightarrow>
            run (asyncPropertyCall te (map ArbitraryArg gs @ [FunctionArg p])) vs
              = run \<lparr>arb = a, predicate = (\<lambda>t. p (map Some t))\<rparr> vs)"
proof -
  let ?args = "map ArbitraryArg gs @ [FunctionArg p]"
  have shape: "asyncPropertyCall te ?args = composed te ?args (length gs)"
    using predicateSlot_declared(1) [OF assms] by (simp add: asyncPropertyCall_composed)
  have gen: "generate (asyncPropertyCall te ?args) mrng = tuple te (map ArbitraryArg gs) mrng"
    by (simp add: shape generate_def composed_def generators_declared)
  have verdict: "run (asyncPropertyCall te ?args) vs
      = run \<lparr>arb = a, predicate = (\<lambda>t. p (map Some t))\<rparr> vs" if "length vs = length gs" for vs
    using values_declared [of vs] that
    by (simp add: shape run_def composed_def argument_declared)
  have comps: "length vs = length gs \<and> (\<forall>i<length gs. \<exists>m m'. (gs ! i) m = Inr (vs ! i, m'))"
    if "generate (asyncPropertyCall te ?args) mrng = Inr (vs, mrng')" for vs mrng'
    using that tuple_arbitraries [of te gs mrng vs mrng'] by (simp add: gen)
  from gen verdict comps show ?thesis by blast
qed

theorem asyncProperty_declared_shape_witness:
  "generate (asyncPropertyCall (OtherThrown ''TypeError'')
      [ArbitraryArg (\<lambda>m::nat. Inr (m, Suc m)), ArbitraryArg (\<lambda>m. Inr (10 * m, m + 2)),
       FunctionArg (\<lambda>xs::nat option list. Resolved (Some (xs = [Some 5, Some 60])))]) 5
     = Inr ([5, 60], 8) \<and>
   run (asyncPropertyCall (OtherThrown ''TypeError'')
      [ArbitraryArg (\<lambda>m::nat. Inr (m, Suc m)), ArbitraryArg (\<lambda>m. Inr (10 * m, m + 2)),
       FunctionArg (\<lambda>xs::nat option list. Resolved (Some (xs = [Some 5, Some 60])))]) [5, 60]
     = None \<and>
   run (asyncPropertyCall (OtherThrown ''TypeError'')
      [ArbitraryArg (\<lambda>m::nat. Inr (m, Suc m)), ArbitraryArg (\<lambda>m. Inr (10 * m, m + 2)),
       FunctionArg (\<lambda>xs::nat option list. Resolved (Some (xs = [Some 5, Some 60])))]) [60, 5]
     = Some ''Property failed by returning false''"
  using asyncProperty_declared_shape
      [of "[\<lambda>m::nat. Inr (m, Suc m), \<lambda>m. Inr (10 * m, m + 2)]" "OtherThrown ''TypeError''"
          "\<lambda>xs::nat option list. Resolved (Some (xs = [Some 5, Some 60]))" 5
          "\<lambda>m::nat. Inr ([], m)"]
  by (simp add: run_def)

section \<open>Properties of \<open>formatExecutionSummary\<close>\<close>

lemma join_empties: "join sep (replicate (Suc n) []) = concat (replicate n sep)"
  by (induction n) simp_all

lemma statusIcon_glyph:
  "(if st = Success
    then [CHR 0x1B] @ ''[32m'' @ [CHR 0xE2, CHR 0x88, CHR 0x9A] @ [CHR 0x1B] @ ''[0m''
    else if st = Failure
    then [CHR 0x1B] @ ''[31m'' @ [CHR 0xC3, CHR 0x97] @ [CHR 0x1B] @ ''[0m''
    else [CHR 0x1B] @ ''[33m!'' @ [CHR 0x1B] @ ''[0m'') = glyph st"
  by (cases st) simp_all

lemma glyph_distinct:
  "glyph Success \<noteq> glyph Failure \<and> glyph Success \<noteq> glyph Skipped \<and>
   glyph Failure \<noteq> glyph Skipped"
  by simp

text \<open>Writing to an object that is no node of a tree leaves the tree stored.\<close>

lemma stored_frame: "a \<notin> set (addresses t) \<Longrightarrow> stored (h(a := x)) t = stored h t"
proof (induction t)
  case (Node b st v ts)
  have "stored (h(a := x)) t = stored h t" if "t \<in> set ts" for t
  proof -
    from that Node.prems have "a \<notin> set (addresses t)" by auto
    then show ?thesis by (rule Node.IH [OF that])
  qed
  then have "list_all (stored (h(a := x))) ts = list_all (stored h) ts"
    by (intro list.pred_cong) simp_all
  moreover from Node.prems have "(h(a := x)) b = h b" by simp
  ultimately show ?case by (simp del: fun_upd_apply)
qed

lemma length_bodyLines: "length (bodyLines stringify depth t) = nodes t"
proof (induction t arbitrary: depth)
  case (Node a st v ts)
  have "map (\<lambda>t. length (bodyLines stringify (Suc depth) t)) ts = map nodes ts"
    by (rule map_cong) (simp_all add: Node.IH)
  then have "sum_list (map (\<lambda>t. length (bodyLines stringify (Suc depth) t)) ts)
      = sum_list (map nodes ts)"
    by (rule arg_cong)
  then show ?case by (simp add: length_concat comp_def)
qed

lemma total_nodes:
  "length (concat (map (bodyLines stringify depth) ts)) = sum_list (map nodes ts)"
  by (simp add: length_concat comp_def length_bodyLines)

text \<open>One turn of the loop, on the stack of a list of trees.\<close>

lemma summaryLoop_step:
  assumes "stored h (Node a st v ts)"
  shows "summaryLoop stringify h (stackOf ((Suc d, Node a st v ts) # W)) summaryLines =
    summaryLoop stringify (h(a := (h a)\<lparr>children := rev (map root ts)\<rparr>))
      (stackOf (map (\<lambda>t. (Suc (Suc d), t)) ts @ W))
      (summaryLines @ [concat (replicate d ''. '') @ glyph st @ '' '' @ stringify v])"
  using assms
  by (subst summaryLoop.simps)
     (simp add: stackOf_def Let_def join_empties rev_map comp_def statusIcon_glyph
        del: replicate_Suc glyph.simps)

text \<open>
  The loop on the stack of a forest returns: it appends the body lines of the trees, the
  next tree first, and leaves the array of the children of every node reversed. The
  induction is on the number of nodes still to be rendered.
\<close>

lemma summaryLoop_forest:
  assumes "list_all (\<lambda>(d, t). 0 < d \<and> stored h t) W"
    and "distinct (concat (map (\<lambda>(d, t). addresses t) W))"
  shows "summaryLoop stringify h (stackOf W) summaryLines =
    Some (summaryLines @ concat (map (\<lambda>(d, t). bodyLines stringify d t) W),
          childrenReversed (set (concat (map (\<lambda>(d, t). addresses t) W))) h)"
  using assms
proof (induction "sum_list (map (\<lambda>(d, t). nodes t) W)" arbitrary: W h summaryLines
    rule: less_induct)
  case less
  show ?case
  proof (cases W)
    case Nil
    then show ?thesis
      by (subst summaryLoop.simps) (simp add: stackOf_def childrenReversed_def)
  next
    case (Cons p W')
    obtain d0 a st v ts where p: "p = (d0, Node a st v ts)"
      by (cases p, cases "snd p") auto
    with less.prems Cons obtain d where d0: "d0 = Suc d" by (cases d0) auto
    let ?h = "h(a := (h a)\<lparr>children := rev (map root ts)\<rparr>)"
    let ?W = "map (\<lambda>t. (Suc (Suc d), t)) ts @ W'"
    let ?line = "concat (replicate d ''. '') @ glyph st @ '' '' @ stringify v"
    define A where "A = set (concat (map (\<lambda>(d, t). addresses t) ?W))"
    from less.prems Cons p have st: "stored h (Node a st v ts)" by simp
    have fresh: "a \<notin> set (addresses t)" if "t \<in> set ts" for t
      using that less.prems(2) Cons p by auto
    have fresh': "a \<notin> set (addresses t)" if "(e, t) \<in> set W'" for e t
      using that less.prems(2) Cons p by fastforce
    have "stored ?h t" if "t \<in> set ts" for t
      using that st fresh [OF that] by (simp add: stored_frame list_all_iff)
    moreover have "0 < e \<and> stored ?h t" if "(e, t) \<in> set W'" for e t
      using that less.prems(1) Cons fresh' [OF that] by (auto simp: stored_frame list_all_iff)
    ultimately have "list_all (\<lambda>(d, t). 0 < d \<and> stored ?h t) ?W"
      by (auto simp: list_all_iff)
    moreover have "distinct (concat (map (\<lambda>(d, t). addresses t) ?W))"
      using less.prems(2) Cons p by (simp add: comp_def case_prod_unfold)
    moreover have "sum_list (map (\<lambda>(d, t). nodes t) ?W) < sum_list (map (\<lambda>(d, t). nodes t) W)"
      using Cons p by (simp add: comp_def)
    ultimately have rest:
      "summaryLoop stringify ?h (stackOf ?W) (summaryLines @ [?line]) =
       Some ((summaryLines @ [?line]) @ concat (map (\<lambda>(d, t). bodyLines stringify d t) ?W),
             childrenReversed A ?h)"
      unfolding A_def using less.hyps by blast
    have notin: "a \<notin> A"
      using fresh fresh' by (auto simp: comp_def A_def)
    have A: "set (concat (map (\<lambda>(d, t). addresses t) W)) = insert a A"
      using Cons p by (auto simp: comp_def A_def)
    have "childrenReversed A ?h = childrenReversed (insert a A) h"
    proof
      fix b
      show "childrenReversed A ?h b = childrenReversed (insert a A) h b"
        using notin st by (cases "b = a") (simp_all add: childrenReversed_def)
    qed
    with rest A show ?thesis
      using summaryLoop_step [OF st, of stringify d W' summaryLines] Cons p d0
      by (simp add: comp_def del: glyph.simps)
  qed
qed

lemma rendering_of_a_forest:
  assumes "forest h ts"
  shows "formatExecutionSummary stringify h (map root ts) =
    Some (''Execution summary:\<newline>''
            @ join ''\<newline>'' (concat (map (bodyLines stringify 1) ts)),
          childrenReversed (set (concat (map addresses ts))) h, rev (map root ts))"
proof -
  let ?W = "map (\<lambda>t. (Suc 0, t)) ts"
  have "list_all (\<lambda>(d, t). 0 < d \<and> stored h t) ?W"
    using assms by (simp add: forest_def list_all_iff)
  moreover have "distinct (concat (map (\<lambda>(d, t). addresses t) ?W))"
    using assms by (simp add: forest_def comp_def)
  ultimately have "summaryLoop stringify h (stackOf ?W) [] =
    Some ([] @ concat (map (\<lambda>(d, t). bodyLines stringify d t) ?W),
          childrenReversed (set (concat (map (\<lambda>(d, t). addresses t) ?W))) h)"
    by (rule summaryLoop_forest)
  moreover have "stackOf ?W = map (\<lambda>tree. (1, tree)) (rev (map root ts))"
    by (simp add: stackOf_def rev_map comp_def)
  ultimately show ?thesis
    by (simp add: formatExecutionSummary_def comp_def)
qed

lemma root_mirror: "root (mirror t) = root t"
  by (cases t) simp

lemma set_addresses_mirror: "set (addresses (mirror t)) = set (addresses t)"
  by (induction t) auto

lemma stored_mirror:
  "stored h t \<Longrightarrow> set (addresses t) \<subseteq> A \<Longrightarrow> stored (childrenReversed A h) (mirror t)"
proof (induction t)
  case (Node a st v ts)
  have "stored (childrenReversed A h) (mirror t)" if "t \<in> set ts" for t
    using that Node.IH [of t] Node.prems by (auto simp: list_all_iff)
  then have "list_all (stored (childrenReversed A h)) (rev (map mirror ts))"
    by (simp add: list_all_iff)
  moreover have "childrenReversed A h a =
      \<lparr>status = st, value' = v, children = map root (rev (map mirror ts))\<rparr>"
    using Node.prems by (simp add: childrenReversed_def rev_map comp_def root_mirror)
  ultimately show ?case by simp
qed

lemma nodes_mirror: "nodes (mirror t) = nodes t"
proof (induction t)
  case (Node a st v ts)
  have "map (\<lambda>t. nodes (mirror t)) ts = map nodes ts"
    by (rule map_cong) (simp_all add: Node.IH)
  then have "sum_list (map (\<lambda>t. nodes (mirror t)) ts) = sum_list (map nodes ts)"
    by (rule arg_cong)
  then show ?case by (simp add: rev_map [symmetric] comp_def)
qed

lemma length_addresses: "length (addresses t) = nodes t"
proof (induction t)
  case (Node a st v ts)
  have "map (\<lambda>t. length (addresses t)) ts = map nodes ts"
    by (rule map_cong) (simp_all add: Node.IH)
  then have "sum_list (map (\<lambda>t. length (addresses t)) ts) = sum_list (map nodes ts)"
    by (rule arg_cong)
  then show ?case by (simp add: length_concat comp_def)
qed

lemma mirrored_addresses:
  "set (concat (map addresses (rev (map mirror ts)))) = set (concat (map addresses ts))"
  "length (concat (map addresses (rev (map mirror ts)))) = length (concat (map addresses ts))"
  by (simp_all add: set_addresses_mirror length_concat comp_def length_addresses nodes_mirror
      rev_map [symmetric])

lemma forest_mirror:
  assumes "forest h ts"
  shows "forest (childrenReversed (set (concat (map addresses ts))) h) (rev (map mirror ts))"
proof -
  let ?A = "set (concat (map addresses ts))"
  have "stored (childrenReversed ?A h) (mirror t)" if "t \<in> set ts" for t
    using that assms by (intro stored_mirror) (auto simp: forest_def list_all_iff)
  then have "list_all (stored (childrenReversed ?A h)) (rev (map mirror ts))"
    by (simp add: list_all_iff)
  moreover from assms have "distinct (concat (map addresses ts))" by (simp add: forest_def)
  then have "card (set (concat (map addresses ts))) = length (concat (map addresses ts))"
    by (rule distinct_card)
  then have "distinct (concat (map addresses (rev (map mirror ts))))"
    by (intro card_distinct) (simp only: mirrored_addresses)
  ultimately show ?thesis by (simp add: forest_def)
qed

text \<open>
  What a rendering leaves behind: the store holds the mirrored forest, and a second
  rendering, of the array that the first one reversed, lists the mirrored forest.
\<close>

lemma second_rendering:
  assumes "forest h ts"
    and "formatExecutionSummary stringify h (map root ts) = Some (text1, h1, trees1)"
  shows "\<exists>h2. formatExecutionSummary stringify h1 trees1 =
    Some (''Execution summary:\<newline>''
            @ join ''\<newline>'' (concat (map (bodyLines stringify 1) (rev (map mirror ts)))),
          h2, map root ts)"
proof -
  from assms rendering_of_a_forest [OF assms(1), of stringify]
  have h1: "h1 = childrenReversed (set (concat (map addresses ts))) h"
    and trees1: "trees1 = rev (map root ts)" by simp_all
  have "map root (rev (map mirror ts)) = rev (map root ts)"
    by (simp add: rev_map comp_def root_mirror)
  with rendering_of_a_forest [OF forest_mirror [OF assms(1)], of stringify] h1 trees1
  show ?thesis by (simp add: rev_map comp_def root_mirror)
qed

lemma exampleForest_stored: "forest exampleHeap exampleForest"
  by (simp add: forest_def exampleHeap_def exampleForest_def)

text \<open>
  C5. For every execution forest with \<open>k\<close> nodes in all, \<open>formatExecutionSummary\<close> returns
  the header line "Execution summary:" followed by exactly \<open>k\<close> body lines, one per
  node, in pre-order (a parent before its children, siblings in their order), each
  indented by \<open>depth - 1\<close> copies of the two-character marker (none for a root) and
  starting with one of three distinct fixed glyphs for the status, a space and the value
  of the node as text.
\<close>

theorem formatExecutionSummary_forest:
  assumes "forest h ts"
  shows "(\<exists>h'. formatExecutionSummary stringify h (map root ts) =
           Some (''Execution summary:\<newline>''
                   @ join ''\<newline>'' (concat (map (bodyLines stringify 1) ts)),
                 h', rev (map root ts))) \<and>
         length (concat (map (bodyLines stringify 1) ts)) = sum_list (map nodes ts) \<and>
         glyph Success \<noteq> glyph Failure \<and> glyph Success \<noteq> glyph Skipped \<and>
         glyph Failure \<noteq> glyph Skipped"
  using rendering_of_a_forest [OF assms, of stringify] glyph_distinct
  by (simp add: total_nodes del: glyph.simps)

theorem formatExecutionSummary_forest_witness:
  "forest exampleHeap exampleForest \<and>
   (\<exists>h'. formatExecutionSummary showNat exampleHeap [0, 1] =
      Some (''Execution summary:\<newline>'' @ glyph Failure @ '' 10\<newline>. '' @ glyph Success
              @ '' 2\<newline>. '' @ glyph Success @ '' 3\<newline>'' @ glyph Skipped @ '' 11'',
            h', [1, 0])) \<and>
   sum_list (map nodes exampleForest) = 4"
  using formatExecutionSummary_forest [OF exampleForest_stored, of showNat] exampleForest_stored
  by (simp add: exampleForest_def showNat.simps)

text \<open>
  C4 fails on the code: \<open>reverse()\<close> reverses the array of the roots and the array of
  the children of every node in place, so that the forest is not what it was after a
  rendering, and a second rendering of the same forest lists siblings in the opposite
  order. Here are the two texts, and between them the array of the roots and the array of
  the children of the first root as the first call leaves them.
\<close>

theorem formatExecutionSummary_twice:
  "(case formatExecutionSummary showNat exampleHeap [0, 1] of
      None \<Rightarrow> None
    | Some (text1, h1, trees1) \<Rightarrow>
        (case formatExecutionSummary showNat h1 trees1 of
           None \<Rightarrow> None
         | Some (text2, h2, trees2) \<Rightarrow> Some (text1, trees1, children (h1 0), text2)))
   = Some (''Execution summary:\<newline>'' @ glyph Failure @ '' 10\<newline>. '' @ glyph Success
             @ '' 2\<newline>. '' @ glyph Success @ '' 3\<newline>'' @ glyph Skipped @ '' 11'',
           [1, 0], [3, 2],
           ''Execution summary:\<newline>'' @ glyph Skipped @ '' 11\<newline>'' @ glyph Failure
             @ '' 10\<newline>. '' @ glyph Success @ '' 3\<newline>. '' @ glyph Success @ '' 2'')"
  by code_simp

section \<open>Properties of \<open>throwIfFailed\<close>\<close>

lemma zip_indices:
  "map (\<lambda>(h, idx). f idx h) (zip hs [0..<length hs]) = map (\<lambda>i. f i (hs ! i)) [0..<length hs]"
  by (rule nth_equalityI) simp_all

lemma formatHints_hintsText:
  assumes "hs \<noteq> []"
  shows "''\<newline>\<newline>'' @ formatHints hs = hintsText hs"
proof (cases hs)
  case Nil
  with assms show ?thesis by simp
next
  case outer: (Cons h hs')
  show ?thesis
  proof (cases hs')
    case Nil
    with outer show ?thesis by (simp add: formatHints_def hintsText_def)
  next
    case (Cons h' hs'')
    with outer have "length hs \<noteq> 1" by simp
    then have "formatHints hs = join ''\<newline>''
        (map (\<lambda>i. ''Hint ('' @ showNat (i + 1) @ ''): '' @ hs ! i) [0..<length hs])"
      unfolding formatHints_def
      using zip_indices [of "\<lambda>idx h. ''Hint ('' @ showNat (idx + 1) @ ''): '' @ h" hs]
      by simp
    with Cons outer show ?thesis by (simp add: hintsText_def)
  qed
qed

text \<open>A failed run: the error is assembled from the report of the builder that the
  classification selects.\<close>

lemma throwIfFailed_failed:
  assumes "failed out"
  shows "throwIfFailed stringify h out =
    map_option (\<lambda>(report, h', out'). (Inl (assembled report), h', out'))
      (preFormat (classify out) stringify h out)"
proof -
  have msg: "(let errorMessage = message report;
         errorMessage = (case details report of
                       Some d \<Rightarrow> errorMessage @ ''\<newline>\<newline>'' @ d
                     | None \<Rightarrow> errorMessage);
         errorMessage = (if length (hints report) > 0
                     then errorMessage @ ''\<newline>\<newline>'' @ formatHints (hints report)
                     else errorMessage)
     in errorMessage) = assembled report" for report :: Report
  proof (cases "hints report = []")
    case True
    then show ?thesis by (simp add: assembled_def hintsText_def split: option.splits)
  next
    case False
    from formatHints_hintsText [OF this] False show ?thesis
      by (simp add: assembled_def split: option.splits)
  qed
  have dispatch:
    "(if counterexample out = None
      then (if interrupted out
            then preFormatEarlyInterrupted stringify h out
            else preFormatTooManySkipped stringify h out)
      else preFormatFailure stringify h out) = preFormat (classify out) stringify h out"
    by (simp add: classify_def)
  show ?thesis
  proof (cases "preFormat (classify out) stringify h out")
    case None
    with assms show ?thesis unfolding throwIfFailed_def dispatch by simp
  next
    case (Some r)
    obtain report h' out' where "r = (report, h', out')" by (cases r)
    with Some assms msg [of report] show ?thesis
      unfolding throwIfFailed_def dispatch by (simp add: Let_def)
  qed
qed

text \<open>Every builder returns when the trees that it renders are a forest.\<close>

lemma preFormat_returns:
  assumes "verbose out = VeryVerbose \<longrightarrow> forest h ts \<and> executionSummary out = map root ts"
  shows "\<exists>report h' out'. preFormat b stringify h out = Some (report, h', out')"
proof (cases "verbose out = VeryVerbose")
  case True
  with assms have "forest h ts" and "executionSummary out = map root ts" by simp_all
  with rendering_of_a_forest [of h ts stringify] True show ?thesis
    by (cases b)
       (simp_all add: preFormatTooManySkipped_def preFormatFailure_def
          preFormatEarlyInterrupted_def Let_def)
next
  case False
  then have "\<not> level VeryVerbose \<le> level (verbose out)"
    by (cases "verbose out") simp_all
  then show ?thesis
    by (cases b)
       (simp_all add: preFormatTooManySkipped_def preFormatFailure_def
          preFormatEarlyInterrupted_def Let_def)
qed

lemma builderPrefix_distinct: "builderPrefix b @ x = builderPrefix b' @ y \<Longrightarrow> b = b'"
  by (cases b; cases b') simp_all

lemma preFormat_message:
  "preFormat b stringify h out = Some (report, h', out') \<Longrightarrow>
   \<exists>rest. assembled report = builderPrefix b @ rest"
  by (cases b)
     (auto simp: preFormatTooManySkipped_def preFormatFailure_def
        preFormatEarlyInterrupted_def Let_def assembled_def split: if_splits option.splits)

text \<open>
  C1. For every run with \<open>failed = true\<close> (whose trees, when they are rendered, are a
  forest), \<open>throwIfFailed\<close> raises the error of exactly one of the three builders: the
  error is assembled from the report of the selected builder, no other builder has a
  report that gives this error, and the selection looks at nothing but the presence of
  the counterexample and the flag \<open>interrupted\<close>: the counterexample builder when there
  is a counterexample, otherwise the interrupted builder when the flag is set,
  otherwise the too-many-skips builder.
\<close>

theorem throwIfFailed_one_builder:
  assumes "failed out"
    and "verbose out = VeryVerbose \<longrightarrow> forest h ts \<and> executionSummary out = map root ts"
  shows "\<exists>report h' out'.
           preFormat (classify out) stringify h out = Some (report, h', out') \<and>
           throwIfFailed stringify h out = Some (Inl (assembled report), h', out') \<and>
           (\<forall>b report' h'' out''.
              preFormat b stringify h out = Some (report', h'', out'') \<and>
              assembled report' = assembled report \<longrightarrow> b = classify out) \<and>
           classify out =
             (if counterexample out \<noteq> None then CounterexampleFound
              else if interrupted out then Interrupted else TooManySkips)"
proof -
  from preFormat_returns [OF assms(2), of "classify out" stringify]
  obtain report h' out' where
    sel: "preFormat (classify out) stringify h out = Some (report, h', out')"
    by blast
  have uniq: "b = classify out"
    if "preFormat b stringify h out = Some (report', h'', out'')"
      and "assembled report' = assembled report" for b report' h'' out''
  proof -
    from preFormat_message [OF that(1)]
    obtain r1 where "assembled report' = builderPrefix b @ r1" ..
    moreover from preFormat_message [OF sel]
    obtain r2 where "assembled report = builderPrefix (classify out) @ r2" ..
    ultimately have "builderPrefix b @ r1 = builderPrefix (classify out) @ r2"
      using that(2) by simp
    then show ?thesis by (rule builderPrefix_distinct)
  qed
  have raised: "throwIfFailed stringify h out = Some (Inl (assembled report), h', out')"
    using throwIfFailed_failed [OF assms(1), of stringify h] sel by simp
  show ?thesis
  proof (intro exI conjI allI impI)
    show "preFormat (classify out) stringify h out = Some (report, h', out')" by (rule sel)
    show "throwIfFailed stringify h out = Some (Inl (assembled report), h', out')"
      by (rule raised)
    show "b = classify out"
      if "preFormat b stringify h out = Some (report', h'', out'') \<and>
          assembled report' = assembled report" for b report' h'' out''
      using that uniq by blast
    show "classify out =
      (if counterexample out \<noteq> None then CounterexampleFound
       else if interrupted out then Interrupted else TooManySkips)"
      by (simp add: classify_def)
  qed
qed

lemma exampleRun_error:
  "map_option fst (throwIfFailed showNat exampleHeap exampleRun) =
   Some (Inl (''Property failed after 12 tests\<newline>{ seed: -42, path: \"1:2\", endOnFailure: true }\<newline>Counterexample: 10\<newline>Shrunk 4 time(s)\<newline>Got error: Error: boom\<newline>\<newline>Execution summary:\<newline>''
     @ glyph Failure @ '' 10\<newline>. '' @ glyph Success @ '' 2\<newline>. '' @ glyph Success
     @ '' 3\<newline>'' @ glyph Skipped @ '' 11''))"
  by code_simp

theorem throwIfFailed_one_builder_witness:
  "failed exampleRun \<and> forest exampleHeap exampleForest \<and>
   executionSummary exampleRun = map root exampleForest \<and>
   classify exampleRun = CounterexampleFound \<and>
   (\<exists>report h' out'.
      preFormatFailure showNat exampleHeap exampleRun = Some (report, h', out') \<and>
      throwIfFailed showNat exampleHeap exampleRun = Some (Inl (assembled report), h', out') \<and>
      assembled report =
        ''Property failed after 12 tests\<newline>{ seed: -42, path: \"1:2\", endOnFailure: true }\<newline>Counterexample: 10\<newline>Shrunk 4 time(s)\<newline>Got error: Error: boom\<newline>\<newline>Execution summary:\<newline>''
        @ glyph Failure @ '' 10\<newline>. '' @ glyph Success @ '' 2\<newline>. '' @ glyph Success
        @ '' 3\<newline>'' @ glyph Skipped @ '' 11'')"
proof -
  have run: "failed exampleRun" "executionSummary exampleRun = map root exampleForest"
    "classify exampleRun = CounterexampleFound"
    by (simp_all add: exampleRun_def exampleForest_def classify_def)
  from throwIfFailed_one_builder [of exampleRun exampleHeap exampleForest showNat]
    run exampleForest_stored
  obtain report h' out' where
    "preFormatFailure showNat exampleHeap exampleRun = Some (report, h', out')"
    "throwIfFailed showNat exampleHeap exampleRun = Some (Inl (assembled report), h', out')"
    by auto
  with exampleRun_error run exampleForest_stored show ?thesis
    by (simp del: glyph.simps)
qed

text \<open>
  C3. \<open>throwIfFailed\<close> returns without raising, and leaves everything as it is, when
  \<open>failed\<close> is false. When \<open>failed\<close> is true (and the trees, when they are rendered, are
  a forest) it raises one error, whose text is the message of the builder, then the
  details after a blank line when there are details, then the hints after a blank line
  when there is a hint: a single hint after "Hint: ", several hints one per line, the
  \<open>i\<close>-th after "Hint (i): ".
\<close>

theorem throwIfFailed_text:
  "(\<not> failed out \<longrightarrow> throwIfFailed stringify h out = Some (Inr (), h, out)) \<and>
   (failed out \<and>
    (verbose out = VeryVerbose \<longrightarrow> forest h ts \<and> executionSummary out = map root ts) \<longrightarrow>
      (\<exists>report h' out'.
         preFormat (classify out) stringify h out = Some (report, h', out') \<and>
         throwIfFailed stringify h out =
           Some (Inl (message report
                      @ (case details report of
                           None \<Rightarrow> [] | Some d \<Rightarrow> ''\<newline>\<newline>'' @ d)
                      @ (case hints report of
                           [] \<Rightarrow> []
                         | [h] \<Rightarrow> ''\<newline>\<newline>Hint: '' @ h
                         | _ \<Rightarrow> ''\<newline>\<newline>'' @ join ''\<newline>''
                             (map (\<lambda>i. ''Hint ('' @ showNat (i + 1) @ ''): '' @ hints report ! i)
                               [0..<length (hints report)]))),
                 h', out')))"
proof (intro conjI impI)
  assume "\<not> failed out"
  then show "throwIfFailed stringify h out = Some (Inr (), h, out)"
    by (simp add: throwIfFailed_def)
next
  assume a: "failed out \<and>
    (verbose out = VeryVerbose \<longrightarrow> forest h ts \<and> executionSummary out = map root ts)"
  then obtain report h' out' where
    sel: "preFormat (classify out) stringify h out = Some (report, h', out')"
    using preFormat_returns [of out h ts "classify out" stringify] by blast
  with a throwIfFailed_failed [of out stringify h]
  have "throwIfFailed stringify h out = Some (Inl (assembled report), h', out')" by simp
  with sel show "\<exists>report h' out'.
         preFormat (classify out) stringify h out = Some (report, h', out') \<and>
         throwIfFailed stringify h out =
           Some (Inl (message report
                      @ (case details report of
                           None \<Rightarrow> [] | Some d \<Rightarrow> ''\<newline>\<newline>'' @ d)
                      @ (case hints report of
                           [] \<Rightarrow> []
                         | [h] \<Rightarrow> ''\<newline>\<newline>Hint: '' @ h
                         | _ \<Rightarrow> ''\<newline>\<newline>'' @ join ''\<newline>''
                             (map (\<lambda>i. ''Hint ('' @ showNat (i + 1) @ ''): '' @ hints report ! i)
                               [0..<length (hints report)]))),
                 h', out')"
    unfolding assembled_def hintsText_def by blast
qed

theorem throwIfFailed_text_witness:
  "throwIfFailed showNat exampleHeap (exampleRun\<lparr>failed := False\<rparr>)
     = Some (Inr (), exampleHeap, exampleRun\<lparr>failed := False\<rparr>) \<and>
   throwIfFailed showNat exampleHeap (exampleRun\<lparr>counterexample := None, verbose := None'\<rparr>)
     = Some (Inl ''Failed to run property, too many pre-condition failures encountered\<newline>{ seed: -42 }\<newline>\<newline>Ran 12 time(s)\<newline>Skipped 3 time(s)\<newline>\<newline>Hint (1): Try to reduce the number of rejected values by combining map, flatMap and built-in arbitraries\<newline>Hint (2): Increase failure tolerance by setting maxSkipsPerRun to an higher value\<newline>Hint (3): Enable verbose mode at level VeryVerbose in order to check all generated values and their associated status'',
             exampleHeap, exampleRun\<lparr>counterexample := None, verbose := None'\<rparr>) \<and>
   throwIfFailed showNat exampleHeap (exampleRun\<lparr>verbose := None'\<rparr>)
     = Some (Inl ''Property failed after 12 tests\<newline>{ seed: -42, path: \"1:2\", endOnFailure: true }\<newline>Counterexample: 10\<newline>Shrunk 4 time(s)\<newline>Got error: Error: boom\<newline>\<newline>Hint: Enable verbose mode in order to have the list of all failing values encountered during the run'',
             exampleHeap, exampleRun\<lparr>verbose := None'\<rparr>)"
  using throwIfFailed_text [of "exampleRun\<lparr>failed := False\<rparr>" showNat exampleHeap exampleForest]
    throwIfFailed_text [of "exampleRun\<lparr>counterexample := None, verbose := None'\<rparr>" showNat
      exampleHeap exampleForest]
    throwIfFailed_text [of "exampleRun\<lparr>verbose := None'\<rparr>" showNat exampleHeap exampleForest]
  by (simp add: exampleRun_def classify_def preFormatTooManySkipped_def preFormatFailure_def
      Let_def showNat.simps showInt_def nullable_def upt_rec)

section \<open>Properties of the custom assertions\<close>

text \<open>The two wrappers that take a callback call it on the values of the counterexample
  and append its text to the generic message.\<close>

lemma buildCustomAssertB_explains:
  assumes "failed (fc_check property params)"
    and "counterexample (fc_check property params) = Some c"
    and "callMethod c s = (Inr text, s')"
  shows "buildCustomAssertB fc_check fc_formatRunDetails property params (Some callMethod) s =
    (Inl (NewError (template (fc_formatRunDetails (fc_check property params))
                      @ ''\<newline>\<newline>'' @ text)), s')"
  using assms by (simp add: buildCustomAssertB_def Let_def)

lemma buildCustomAssertB_generic:
  assumes "failed (fc_check property params)"
    and "callMethod = None \<or> counterexample (fc_check property params) = None"
  shows "buildCustomAssertB fc_check fc_formatRunDetails property params callMethod s =
    (Inl (NewError (errorMessageOf (fc_formatRunDetails (fc_check property params)))), s)"
  using assms by (auto simp: buildCustomAssertB_def Let_def split: option.splits)

lemma withCustomAssert_explains:
  assumes "failed out" and "counterexample out = Some c" and "callMethod c s = (Inr text, s')"
  shows "withCustomAssert fc_formatRunDetails out callMethod s =
    (Inl (NewError (template (fc_formatRunDetails out) @ ''\<newline>\<newline>'' @ text)), s')"
  using assms by (simp add: withCustomAssert_def Let_def)

lemma withCustomAssert_generic:
  assumes "failed out" and "counterexample out = None"
  shows "withCustomAssert fc_formatRunDetails out callMethod s =
    (Inl (NewError (errorMessageOf (fc_formatRunDetails out))), s)"
  using assms by (simp add: withCustomAssert_def Let_def)

lemma customAssertA_generic:
  assumes "failed (fc_check property params)"
    and "counterexample (fc_check property params) = None"
  shows "customAssertA fc_check fc_formatRunDetails property params =
    Inl (NewError (errorMessageOf (fc_formatRunDetails (fc_check property params))))"
  using assms by (simp add: customAssertA_def Let_def)

text \<open>
  C9 fails on \<open>customAssertA\<close>: it takes no callback, and on a failed run with a
  counterexample it raises the generic message followed by a blank line and the quoted
  source text of the call that it does not make, not the generic message alone.
\<close>

theorem customAssertA_quoted_call:
  "customAssertA (\<lambda>(p :: unit) (q :: unit option). exampleTuple) (\<lambda>out. Some ''generic'') () None
     = Inl (NewError ''generic\<newline>\<newline>await callMethod(out.counterexample)'')"
  by (simp add: customAssertA_def exampleTuple_def template_def)

text \<open>
  C10. For every failed run with a counterexample, \<open>withCustomAssertB\<close> calls
  \<open>config.onRunInterrupted\<close> on the values of the counterexample and appends its text to
  the generic message after a blank line; nothing of the result or of the state of the
  user depends on \<open>config.onRunFailed\<close> or \<open>config.onRunTooManySkip\<close>, which are not
  called, whatever the flag \<open>interrupted\<close> and the counts of the run are.
\<close>

theorem withCustomAssertB_onRunInterrupted_only:
  assumes "failed out" and "counterexample out = Some c"
  shows "withCustomAssertB fc_formatRunDetails out cfg s =
           (case onRunInterrupted cfg c s of
              (Inl err, s') \<Rightarrow> (Inl (Rethrown err), s')
            | (Inr text, s') \<Rightarrow>
                (Inl (NewError (template (fc_formatRunDetails out) @ ''\<newline>\<newline>'' @ text)),
                 s')) \<and>
         withCustomAssertB fc_formatRunDetails out
             (cfg\<lparr>onRunFailed := f, onRunTooManySkip := g\<rparr>) s =
           withCustomAssertB fc_formatRunDetails out cfg s"
  using assms by (simp add: withCustomAssertB_def Let_def)

theorem withCustomAssertB_onRunInterrupted_only_witness:
  "failed exampleTuple \<and> counterexample exampleTuple = Some [7, 8] \<and>
   interrupted exampleTuple = False \<and>
   withCustomAssertB (\<lambda>out. Some ''generic'') exampleTuple exampleConfig []
     = (Inl (NewError ''generic\<newline>\<newline>interrupted saw 78''), [''interrupted''])"
  using withCustomAssertB_onRunInterrupted_only
      [of exampleTuple "[7, 8]" "\<lambda>out. Some ''generic''" exampleConfig "[]"
          "logging ''failed''" "logging ''skipped''"]
  by (simp add: exampleTuple_def exampleConfig_def logging_def template_def showNat.simps)

end
